theory Spec2Isabelle
  imports Main "HOL-Library.Word"
begin

section \<open>The mesh-proxy DNS lookup table of polaris-sidecar\<close>

text \<open>
  A shallow embedding of \<^verbatim>\<open>resolver/meshproxy/dns.go\<close>. Go strings are byte
  sequences (\<^typ>\<open>string\<close>), a slice is a list (the nil slice and the empty slice are
  both \<open>[]\<close>; \<^verbatim>\<open>len\<close> cannot tell them apart and the code only uses \<^verbatim>\<open>len\<close>),
  a Go map is a partial function, and \<^verbatim>\<open>map[string]struct{}\<close> is a set of keys.
  A \<^verbatim>\<open>net.IP\<close> is a byte slice whose nil value matters to the record builders, so it
  is an \<open>option\<close>: \<open>None\<close> is the nil \<^verbatim>\<open>net.IP\<close>.

  Two functions of the Go standard library are called by the code and are not part of it.
  \<^verbatim>\<open>net.ParseIP\<close> is a parameter \<open>parseIP\<close> of every definition that reaches it.
  \<^verbatim>\<open>strings.ToLower\<close> is written out for strings of ASCII bytes, where it is a map over
  the bytes; on a string holding a byte above 127 Go maps Unicode code points, and that
  mapping is the parameter \<open>lowerU\<close>.
\<close>

subsection \<open>Library functions the code calls\<close>

type_synonym net_IP = "8 word list option"

definition isASCII :: "string \<Rightarrow> bool" where
  "isASCII s = list_all (\<lambda>c. (of_char c :: nat) < 128) s"

definition isUpper :: "char \<Rightarrow> bool" where
  "isUpper c = ((of_char CHR ''A'' :: nat) \<le> of_char c \<and> (of_char c :: nat) \<le> of_char CHR ''Z'')"

definition lowerByte :: "char \<Rightarrow> char" where
  "lowerByte c = (if isUpper c then char_of ((of_char c :: nat) + 32) else c)"

definition hasUpper :: "string \<Rightarrow> bool" where
  "hasUpper s = list_ex isUpper s"

definition ToLower :: "(string \<Rightarrow> string) \<Rightarrow> string \<Rightarrow> string" where
  "ToLower lowerU s =
     (if isASCII s then (if \<not> hasUpper s then s else map lowerByte s)
      else lowerU s)"

subsection \<open>Resource records and messages\<close>

definition TypeA :: "16 word" where "TypeA = 1"
definition TypeCNAME :: "16 word" where "TypeCNAME = 5"
definition TypeAAAA :: "16 word" where "TypeAAAA = 28"
definition ClassINET :: "16 word" where "ClassINET = 1"
definition RcodeSuccess :: int where "RcodeSuccess = 0"

record RR_Header =
  Name :: string
  Rrtype :: "16 word"
  Class :: "16 word"
  Ttl :: "32 word"
  Rdlength :: "16 word"

text \<open>
  \<^verbatim>\<open>dns.RR\<close> is an interface; the code builds and inspects three of its
  implementations. The second field is \<^verbatim>\<open>A\<close>, \<^verbatim>\<open>AAAA\<close> and \<^verbatim>\<open>Target\<close>.
\<close>

datatype RR =
    is_A: A RR_Header net_IP
  | is_AAAA: AAAA RR_Header net_IP
  | is_CNAME: CNAME RR_Header string

text \<open>The question's \<^verbatim>\<open>Name\<close> field is \<open>QName\<close> here: the header has a \<open>Name\<close> already.\<close>

record Question =
  QName :: string
  Qtype :: "16 word"
  Qclass :: "16 word"

text \<open>
  Of \<^verbatim>\<open>dns.Msg\<close> the three fields that \<^verbatim>\<open>ServeDNS\<close> assigns; every other field of
  the message keeps the zero value \<^verbatim>\<open>new(dns.Msg)\<close> gave it.
\<close>

record Msg =
  Authoritative :: bool
  Rcode :: int
  Answer :: "RR list"

subsection \<open>The table and the server\<close>

record LookupTable =
  allHosts :: "string set"
  name4 :: "string \<rightharpoonup> RR list"
  name6 :: "string \<rightharpoonup> RR list"
  cname :: "string \<rightharpoonup> RR list"
  dnsTtl :: "32 word"

text \<open>
  \<open>lookupTable\<close> is the \<^verbatim>\<open>atomic.Value\<close>: \<open>None\<close> until the first \<^verbatim>\<open>Store\<close>.
  The server's \<^verbatim>\<open>dnsTtl\<close> field is \<open>serverTtl\<close>: the table has a \<open>dnsTtl\<close> already.
\<close>

record LocalDNSServer =
  lookupTable :: "LookupTable option"
  serverTtl :: "32 word"

datatype panic = InterfaceConversion | NilPointerDereference

text \<open>Indexing a Go map of slices: a missing key reads as the nil slice.\<close>

definition index :: "(string \<rightharpoonup> RR list) \<Rightarrow> string \<Rightarrow> RR list" where
  "index m k = (case m k of None \<Rightarrow> [] | Some rs \<Rightarrow> rs)"

subsection \<open>Record builders\<close>

text \<open>The functions \<^verbatim>\<open>a\<close>, \<^verbatim>\<open>aaaa\<close> and \<^verbatim>\<open>cname\<close> of the source, one record per address.\<close>

definition a_rr :: "string \<Rightarrow> net_IP list \<Rightarrow> 32 word \<Rightarrow> RR list" where
  "a_rr host ips ttl =
     map (\<lambda>ip. A \<lparr>Name = host, Rrtype = TypeA, Class = ClassINET, Ttl = ttl, Rdlength = 0\<rparr> ip) ips"

definition aaaa_rr :: "string \<Rightarrow> net_IP list \<Rightarrow> 32 word \<Rightarrow> RR list" where
  "aaaa_rr host ips ttl =
     map (\<lambda>ip. AAAA \<lparr>Name = host, Rrtype = TypeAAAA, Class = ClassINET, Ttl = ttl, Rdlength = 0\<rparr> ip) ips"

definition cname_rr :: "string \<Rightarrow> string \<Rightarrow> 32 word \<Rightarrow> RR list" where
  "cname_rr host targetHost ttl =
     [CNAME \<lparr>Name = host, Rrtype = TypeCNAME, Class = ClassINET, Ttl = ttl, Rdlength = 0\<rparr> targetHost]"

subsection \<open>Building a table\<close>

text \<open>
  One turn of the loop of \<^verbatim>\<open>buildDNSAnswers\<close>, for the key \<open>h0\<close> of \<^verbatim>\<open>altHosts\<close>;
  \<open>h\<close> is the loop variable after \<^verbatim>\<open>h = strings.ToLower(h)\<close>. The maps of a table are
  the non-nil maps that \<^verbatim>\<open>UpdateLookupTable\<close> makes, so the writes do not panic.
\<close>

definition registerHost ::
  "(string \<Rightarrow> string) \<Rightarrow> net_IP list \<Rightarrow> net_IP list \<Rightarrow> string \<Rightarrow> LookupTable \<Rightarrow> LookupTable" where
  "registerHost lowerU ipv4 ipv6 h0 table =
     (let h = ToLower lowerU h0;
          t1 = table\<lparr>allHosts := insert h (allHosts table)\<rparr>;
          t2 = (if length ipv4 > 0
                then t1\<lparr>name4 := (name4 t1)(h \<mapsto> a_rr h ipv4 (dnsTtl t1))\<rparr> else t1);
          t3 = (if length ipv6 > 0
                then t2\<lparr>name6 := (name6 t2)(h \<mapsto> aaaa_rr h ipv6 (dnsTtl t2))\<rparr> else t2)
      in t3)"

text \<open>
  \<^verbatim>\<open>altHosts\<close> is a Go map used as a set; the list is its keys in the order the
  \<^verbatim>\<open>range\<close> statement visits them, which Go leaves open. Every theorem below holds for
  every order.
\<close>

fun buildDNSAnswers ::
  "(string \<Rightarrow> string) \<Rightarrow> LookupTable \<Rightarrow> string list \<Rightarrow> net_IP list \<Rightarrow> net_IP list \<Rightarrow> LookupTable" where
  "buildDNSAnswers lowerU table [] ipv4 ipv6 = table"
| "buildDNSAnswers lowerU table (h # hs) ipv4 ipv6 =
     buildDNSAnswers lowerU (registerHost lowerU ipv4 ipv6 h table) hs ipv4 ipv6"

definition emptyTable :: "32 word \<Rightarrow> LookupTable" where
  "emptyTable ttl =
     \<lparr>allHosts = {}, name4 = Map.empty, name6 = Map.empty, cname = Map.empty, dnsTtl = ttl\<rparr>"

text \<open>The loop of \<^verbatim>\<open>UpdateLookupTable\<close> over the service names.\<close>

fun registerServices ::
  "(string \<Rightarrow> string) \<Rightarrow> (string \<Rightarrow> net_IP) \<Rightarrow> LookupTable \<Rightarrow> string list \<Rightarrow> string \<Rightarrow> LookupTable" where
  "registerServices lowerU parseIP table [] dnsResponseIp = table"
| "registerServices lowerU parseIP table (service # rest) dnsResponseIp =
     registerServices lowerU parseIP
       (buildDNSAnswers lowerU table [service @ ''.''] [parseIP dnsResponseIp] [])
       rest dnsResponseIp"

text \<open>
  \<^verbatim>\<open>UpdateLookupTable\<close> returns the server with the new table stored. The log line
  is an effect outside the model.
\<close>

definition UpdateLookupTable ::
  "(string \<Rightarrow> string) \<Rightarrow> (string \<Rightarrow> net_IP) \<Rightarrow> LocalDNSServer \<Rightarrow> string list \<Rightarrow> string \<Rightarrow> LocalDNSServer" where
  "UpdateLookupTable lowerU parseIP h polarisServices dnsResponseIp =
     h\<lparr>lookupTable :=
         Some (registerServices lowerU parseIP (emptyTable (serverTtl h))
                 polarisServices dnsResponseIp)\<rparr>"

definition newLocalDNSServer :: "32 word \<Rightarrow> LocalDNSServer" where
  "newLocalDNSServer ttl = \<lparr>lookupTable = None, serverTtl = ttl\<rparr>"

subsection \<open>Answering\<close>

text \<open>
  The type assertion \<^verbatim>\<open>cn[0].(*dns.CNAME)\<close> panics when the first record of the
  \<^verbatim>\<open>cname\<close> entry is of another type; \<open>cnameTarget\<close> is that step, with the host name
  left as it is when the entry is empty.
\<close>

fun cnameTarget :: "RR list \<Rightarrow> string \<Rightarrow> panic + string" where
  "cnameTarget [] hostname = Inr hostname"
| "cnameTarget (CNAME hdr target # rest) hostname = Inr target"
| "cnameTarget (r # rest) hostname = Inl InterfaceConversion"

definition lookupHost :: "LookupTable \<Rightarrow> 16 word \<Rightarrow> string \<Rightarrow> panic + (RR list \<times> bool)" where
  "lookupHost table qtype hostname =
     (if hostname \<notin> allHosts table then Inr ([], False)
      else
        let cn = index (cname table) hostname in
        case cnameTarget cn hostname of
          Inl p \<Rightarrow> Inl p
        | Inr hostname' \<Rightarrow>
            let ipAnswers =
                  (if qtype = TypeA then index (name4 table) hostname'
                   else if qtype = TypeAAAA then index (name6 table) hostname'
                   else []);
                out = (if length ipAnswers > 0 then cn @ ipAnswers else [])
            in Inr (out, True))"

text \<open>
  \<^verbatim>\<open>ServeDNS\<close> takes a pointer to the question: \<open>None\<close> is the nil pointer, which is
  only dereferenced once a table has been loaded. \<open>Inr None\<close> is the nil message.
\<close>

definition ServeDNS ::
  "(string \<Rightarrow> string) \<Rightarrow> LocalDNSServer \<Rightarrow> Question option \<Rightarrow> panic + Msg option" where
  "ServeDNS lowerU h question =
     (case lookupTable h of
        None \<Rightarrow> Inr None
      | Some table \<Rightarrow>
          (case question of
             None \<Rightarrow> Inl NilPointerDereference
           | Some q \<Rightarrow>
               (case lookupHost table (Qtype q) (ToLower lowerU (QName q)) of
                  Inl p \<Rightarrow> Inl p
                | Inr (answers, hostFound) \<Rightarrow>
                    if hostFound
                    then Inr (Some \<lparr>Authoritative = True, Rcode = RcodeSuccess, Answer = answers\<rparr>)
                    else Inr None)))"

subsection \<open>Sample values of the library parameters\<close>

text \<open>
  The values of \<^verbatim>\<open>net.ParseIP\<close> on the address strings of the worked examples
  below: the 16-byte form of 10.0.0.5 and the IPv6 loopback address. The other strings
  passed to it there are not addresses, and for them Go returns nil. This is a table of
  those values and no model of the parser: the general theorems leave \<open>parseIP\<close>
  arbitrary.
\<close>

definition sampleParseIP :: "string \<Rightarrow> net_IP" where
  "sampleParseIP s =
     (if s = ''10.0.0.5'' then Some [0, 0, 0, 0, 0, 0, 0, 0, 0, 0, 255, 255, 10, 0, 0, 5]
      else if s = ''::1'' then Some [0, 0, 0, 0, 0, 0, 0, 0, 0, 0, 0, 0, 0, 0, 0, 1]
      else None)"

text \<open>
  The server of the worked examples: time-to-live 30, one update with the service
  \<^verbatim>\<open>svc1.ns.svc.cluster.local\<close> and the address 10.0.0.5. Its names are ASCII, so the
  Unicode mapping is never reached and is the identity here. \<open>sampleTable\<close> is the
  table that update builds, and \<open>aliasTable\<close> a table with an alias: no function of the
  source writes the \<^verbatim>\<open>cname\<close> map, so this one is written down field by field.
\<close>

definition sampleServer :: LocalDNSServer where
  "sampleServer =
     UpdateLookupTable id sampleParseIP (newLocalDNSServer 30)
       [''svc1.ns.svc.cluster.local''] ''10.0.0.5''"

definition sampleTable :: LookupTable where
  "sampleTable =
     registerServices id sampleParseIP (emptyTable 30)
       [''svc1.ns.svc.cluster.local''] ''10.0.0.5''"

definition aliasTable :: LookupTable where
  "aliasTable =
     \<lparr>allHosts = {''alias.ns.'', ''target.ns.''},
      name4 = [''target.ns.'' \<mapsto> a_rr ''target.ns.'' [Some [10, 0, 0, 5], Some [10, 0, 0, 6]] 30],
      name6 = Map.empty,
      cname = [''alias.ns.'' \<mapsto> cname_rr ''alias.ns.'' ''target.ns.'' 30],
      dnsTtl = 30\<rparr>"

text \<open>The key under which \<^verbatim>\<open>UpdateLookupTable\<close> registers a service name.\<close>

abbreviation serviceKey :: "(string \<Rightarrow> string) \<Rightarrow> string \<Rightarrow> string" where
  "serviceKey lowerU service \<equiv> ToLower lowerU (service @ ''.'')"

section \<open>Basic facts\<close>

lemma eq_char_of_iff: "c = char_of (n :: nat) \<longleftrightarrow> take_bit 8 n = of_char c"
  using char_of_eq_iff [of n c] by (simp only: eq_commute [of c])

lemmas eval_defs =
  ToLower_def isASCII_def hasUpper_def isUpper_def lowerByte_def char_of_eq_iff eq_char_of_iff
  registerHost_def emptyTable_def UpdateLookupTable_def newLocalDNSServer_def
  lookupHost_def ServeDNS_def a_rr_def aaaa_rr_def cname_rr_def Let_def index_def
  sampleParseIP_def sampleServer_def sampleTable_def aliasTable_def
  TypeA_def TypeAAAA_def TypeCNAME_def ClassINET_def RcodeSuccess_def

lemma index_simps [simp]:
  "m k = None \<Longrightarrow> index m k = []"
  "m k = Some rs \<Longrightarrow> index m k = rs"
  by (simp_all add: index_def)

lemma index_empty [simp]: "index Map.empty k = []"
  by (simp add: index_def)

subsection \<open>Lowercasing ASCII strings\<close>

lemma map_lowerByte_noUpper: "\<not> hasUpper s \<Longrightarrow> map lowerByte s = s"
  by (induction s) (simp_all add: hasUpper_def lowerByte_def)

lemma ToLower_ASCII: "isASCII s \<Longrightarrow> ToLower lowerU s = map lowerByte s"
  by (simp add: ToLower_def map_lowerByte_noUpper)

lemma isUpper_range: "isUpper c \<longleftrightarrow> 65 \<le> (of_char c :: nat) \<and> (of_char c :: nat) \<le> 90"
  by (simp add: isUpper_def)

lemma of_char_lowerByte:
  "isUpper c \<Longrightarrow> (of_char (lowerByte c) :: nat) = of_char c + 32"
  by (simp add: lowerByte_def isUpper_range take_bit_eq_mod)

lemma lowerByte_not_upper: "\<not> isUpper (lowerByte c)"
proof (cases "isUpper c")
  case True
  then show ?thesis using of_char_lowerByte [OF True] by (simp add: isUpper_range)
next
  case False
  then show ?thesis by (simp add: lowerByte_def)
qed

lemma lowerByte_ascii:
  assumes "(of_char c :: nat) < 128"
  shows "(of_char (lowerByte c) :: nat) < 128"
proof (cases "isUpper c")
  case True
  then show ?thesis using of_char_lowerByte [OF True] by (simp add: isUpper_range)
next
  case False
  with assms show ?thesis by (simp add: lowerByte_def)
qed

lemma hasUpper_map_lowerByte: "\<not> hasUpper (map lowerByte s)"
  by (induction s) (simp_all add: hasUpper_def lowerByte_not_upper)

lemma isASCII_map_lowerByte: "isASCII s \<Longrightarrow> isASCII (map lowerByte s)"
  by (induction s) (simp_all add: isASCII_def lowerByte_ascii)

lemma ToLower_idem_ASCII:
  assumes "isASCII s"
  shows "ToLower lowerU (ToLower lowerU s) = ToLower lowerU s"
proof -
  have low: "ToLower lowerU s = map lowerByte s"
    using assms by (rule ToLower_ASCII)
  have "ToLower lowerU (map lowerByte s) = map lowerByte s"
    using assms by (simp add: ToLower_def hasUpper_map_lowerByte isASCII_map_lowerByte)
  with low show ?thesis by simp
qed

lemma isASCII_append [simp]: "isASCII (s @ t) \<longleftrightarrow> isASCII s \<and> isASCII t"
  by (simp add: isASCII_def)

lemma isASCII_dot [simp]: "isASCII ''.''"
  by (simp add: isASCII_def)

lemma lowerByte_dot [simp]: "lowerByte CHR ''.'' = CHR ''.''"
  by (simp add: lowerByte_def isUpper_def)

lemma ToLower_dot_ASCII: "isASCII s \<Longrightarrow> ToLower lowerU (s @ ''.'') = map lowerByte s @ ''.''"
  by (simp add: ToLower_ASCII)

subsection \<open>What the builder writes\<close>

lemma registerHost_allHosts [simp]:
  "allHosts (registerHost u ipv4 ipv6 h t) = insert (ToLower u h) (allHosts t)"
  by (simp add: registerHost_def Let_def)

lemma registerHost_cname [simp]: "cname (registerHost u ipv4 ipv6 h t) = cname t"
  by (simp add: registerHost_def Let_def)

lemma registerHost_dnsTtl [simp]: "dnsTtl (registerHost u ipv4 ipv6 h t) = dnsTtl t"
  by (simp add: registerHost_def Let_def)

lemma registerHost_name4 [simp]:
  "name4 (registerHost u ipv4 ipv6 h t) =
     (if ipv4 = [] then name4 t else (name4 t)(ToLower u h \<mapsto> a_rr (ToLower u h) ipv4 (dnsTtl t)))"
  by (simp add: registerHost_def Let_def)

lemma registerHost_name6 [simp]:
  "name6 (registerHost u ipv4 ipv6 h t) =
     (if ipv6 = [] then name6 t else (name6 t)(ToLower u h \<mapsto> aaaa_rr (ToLower u h) ipv6 (dnsTtl t)))"
  by (simp add: registerHost_def Let_def)

lemma build_allHosts [simp]:
  "allHosts (buildDNSAnswers u t hs ipv4 ipv6) = allHosts t \<union> ToLower u ` set hs"
  by (induction hs arbitrary: t) auto

lemma build_cname [simp]: "cname (buildDNSAnswers u t hs ipv4 ipv6) = cname t"
  by (induction hs arbitrary: t) auto

lemma build_dnsTtl [simp]: "dnsTtl (buildDNSAnswers u t hs ipv4 ipv6) = dnsTtl t"
  by (induction hs arbitrary: t) auto

lemma build_name4:
  "name4 (buildDNSAnswers u t hs ipv4 ipv6) k =
     (if ipv4 \<noteq> [] \<and> k \<in> ToLower u ` set hs then Some (a_rr k ipv4 (dnsTtl t)) else name4 t k)"
  by (induction hs arbitrary: t) auto

lemma build_name6:
  "name6 (buildDNSAnswers u t hs ipv4 ipv6) k =
     (if ipv6 \<noteq> [] \<and> k \<in> ToLower u ` set hs then Some (aaaa_rr k ipv6 (dnsTtl t)) else name6 t k)"
  by (induction hs arbitrary: t) auto

lemma services_allHosts [simp]:
  "allHosts (registerServices u p t svcs ip) = allHosts t \<union> serviceKey u ` set svcs"
  by (induction svcs arbitrary: t) auto

lemma services_cname [simp]: "cname (registerServices u p t svcs ip) = cname t"
  by (induction svcs arbitrary: t) auto

lemma services_dnsTtl [simp]: "dnsTtl (registerServices u p t svcs ip) = dnsTtl t"
  by (induction svcs arbitrary: t) auto

lemma services_name6 [simp]: "name6 (registerServices u p t svcs ip) = name6 t"
  by (induction svcs arbitrary: t) (auto simp: build_name6 fun_eq_iff)

lemma services_name4:
  "name4 (registerServices u p t svcs ip) k =
     (if k \<in> serviceKey u ` set svcs then Some (a_rr k [p ip] (dnsTtl t))
      else name4 t k)"
  by (induction svcs arbitrary: t) (auto simp: build_name4)


subsection \<open>The published table\<close>

lemma published_table [simp]:
  "lookupTable (UpdateLookupTable u p h services ip) =
     Some (registerServices u p (emptyTable (serverTtl h)) services ip)"
  by (simp add: UpdateLookupTable_def)

lemma emptyTable_fields [simp]:
  "allHosts (emptyTable ttl) = {}" "name4 (emptyTable ttl) = Map.empty"
  "name6 (emptyTable ttl) = Map.empty" "cname (emptyTable ttl) = Map.empty"
  "dnsTtl (emptyTable ttl) = ttl"
  by (simp_all add: emptyTable_def)

lemma TypeA_neq_TypeAAAA [simp]: "TypeA \<noteq> TypeAAAA" "TypeAAAA \<noteq> TypeA"
  by (simp_all add: TypeA_def TypeAAAA_def)

section \<open>The contract of ServeDNS\<close>

text \<open>
  Claim C1. While no table has been stored, \<open>ServeDNS\<close> returns the nil message for every
  question (also for the nil pointer). With a table stored, it lowercases the question's
  name and calls \<open>lookupHost\<close>: when that returns \<open>(rs, True)\<close> the result is a message
  with \<open>Authoritative\<close> set, \<open>Rcode\<close> success and \<open>rs\<close>, possibly empty, as its answer
  section; when it returns with the flag \<open>False\<close> the result is the nil message.
\<close>

theorem ServeDNS_contract:
  "(lookupTable h = None \<longrightarrow> ServeDNS lowerU h question = Inr None) \<and>
   (lookupTable h = Some table \<and>
      lookupHost table (Qtype q) (ToLower lowerU (QName q)) = Inr (rs, True) \<longrightarrow>
        ServeDNS lowerU h (Some q) =
          Inr (Some \<lparr>Authoritative = True, Rcode = RcodeSuccess, Answer = rs\<rparr>)) \<and>
   (lookupTable h = Some table \<and>
      lookupHost table (Qtype q) (ToLower lowerU (QName q)) = Inr (rs, False) \<longrightarrow>
        ServeDNS lowerU h (Some q) = Inr None)"
  by (simp add: ServeDNS_def)

theorem ServeDNS_contract_witness:
  "lookupTable (newLocalDNSServer 30) = None \<and>
   ServeDNS id (newLocalDNSServer 30) None = Inr None \<and>
   lookupTable sampleServer = Some sampleTable \<and>
   ServeDNS id sampleServer
     (Some \<lparr>QName = ''Svc1.NS.svc.cluster.local.'', Qtype = TypeA, Qclass = ClassINET\<rparr>) =
     Inr (Some \<lparr>Authoritative = True, Rcode = RcodeSuccess,
                 Answer = a_rr ''svc1.ns.svc.cluster.local.''
                            [Some [0, 0, 0, 0, 0, 0, 0, 0, 0, 0, 255, 255, 10, 0, 0, 5]] 30\<rparr>) \<and>
   ServeDNS id sampleServer
     (Some \<lparr>QName = ''unknown.example.com.'', Qtype = TypeA, Qclass = ClassINET\<rparr>) = Inr None"
  using
    ServeDNS_contract [where h = "newLocalDNSServer 30" and lowerU = id and question = None]
    ServeDNS_contract [where h = sampleServer and lowerU = id and table = sampleTable
      and q = "\<lparr>QName = ''Svc1.NS.svc.cluster.local.'', Qtype = TypeA, Qclass = ClassINET\<rparr>"
      and rs = "a_rr ''svc1.ns.svc.cluster.local.''
                  [Some [0, 0, 0, 0, 0, 0, 0, 0, 0, 0, 255, 255, 10, 0, 0, 5]] 30"]
    ServeDNS_contract [where h = sampleServer and lowerU = id and table = sampleTable
      and q = "\<lparr>QName = ''unknown.example.com.'', Qtype = TypeA, Qclass = ClassINET\<rparr>"
      and rs = "[]"]
  by (simp add: eval_defs)

section \<open>Which names the table answers for\<close>

text \<open>
  Claim C2. For a host name that is not in \<open>allHosts\<close>, \<open>lookupHost\<close> returns no
  record and the flag \<open>False\<close>, whatever the query type. For a host name that is in
  \<open>allHosts\<close>, a call that returns has the flag \<open>True\<close>. In the table stored by
  \<^verbatim>\<open>UpdateLookupTable\<close> every service name, with its dot and lowercased, is in
  \<open>allHosts\<close>, and for every name in \<open>allHosts\<close> and every query type the call returns
  with the flag \<open>True\<close>, whether or not there are records of that type.
\<close>


theorem lookupHost_membership:
  "(hostname \<notin> allHosts table \<longrightarrow> lookupHost table qtype hostname = Inr ([], False)) \<and>
   (hostname \<in> allHosts table \<and> lookupHost table qtype hostname = Inr (rs, known) \<longrightarrow> known) \<and>
   (lookupTable (UpdateLookupTable lowerU parseIP h services ip) = Some t \<longrightarrow>
      (\<forall>s \<in> set services. serviceKey lowerU s \<in> allHosts t) \<and>
      (\<forall>k \<in> allHosts t. \<exists>answers. lookupHost t qtype k = Inr (answers, True)))"
  by (auto simp: lookupHost_def Let_def split: sum.splits)

theorem lookupHost_membership_witness:
  "''unknown.example.com.'' \<notin> allHosts sampleTable \<and>
   lookupHost sampleTable TypeAAAA ''unknown.example.com.'' = Inr ([], False) \<and>
   lookupTable sampleServer = Some sampleTable \<and>
   ''svc1.ns.svc.cluster.local.'' \<in> allHosts sampleTable \<and>
   lookupHost sampleTable TypeAAAA ''svc1.ns.svc.cluster.local.'' = Inr ([], True)"
  using
    lookupHost_membership [where hostname = "''svc1.ns.svc.cluster.local.''" and table = sampleTable
      and qtype = TypeAAAA and rs = "[]" and known = True]
    lookupHost_membership [where hostname = "''unknown.example.com.''" and table = sampleTable
      and qtype = TypeAAAA and lowerU = id and parseIP = sampleParseIP
      and h = "newLocalDNSServer 30" and services = "[''svc1.ns.svc.cluster.local'']"
      and ip = "''10.0.0.5''" and t = sampleTable]
  by (simp add: eval_defs)

section \<open>Alias chains\<close>

text \<open>
  Claim C3. In a table where \<open>aliasHost\<close> is in \<open>allHosts\<close> and its \<open>cname\<close> entry is one
  CNAME record pointing at \<open>target\<close>: when \<open>name4\<close> holds \<open>n\<close> records for
  \<open>target\<close>, with \<open>n\<close> at least one, an A query on \<open>aliasHost\<close> returns \<open>1 + n\<close> records,
  the CNAME record first and the \<open>n\<close> records after it in their stored order; and when
  the target has no record of the requested type, the query returns no record at all and
  the flag \<open>True\<close>, never the CNAME record alone.
\<close>

theorem lookupHost_cname_chain:
  assumes known: "aliasHost \<in> allHosts table"
    and entry: "cname table aliasHost = Some [CNAME hdr target]"
  shows "(name4 table target = Some addrs \<and> length addrs = n \<and> 1 \<le> n \<longrightarrow>
            lookupHost table TypeA aliasHost = Inr (CNAME hdr target # addrs, True) \<and>
            length (CNAME hdr target # addrs) = 1 + n) \<and>
         ((qtype = TypeA \<longrightarrow> index (name4 table) target = []) \<and>
          (qtype = TypeAAAA \<longrightarrow> index (name6 table) target = []) \<longrightarrow>
            lookupHost table qtype aliasHost = Inr ([], True))"
proof (intro conjI impI)
  assume given: "name4 table target = Some addrs \<and> length addrs = n \<and> 1 \<le> n"
  then have "addrs \<noteq> []" by auto
  with known entry given
  show "lookupHost table TypeA aliasHost = Inr (CNAME hdr target # addrs, True)"
    by (simp add: lookupHost_def Let_def)
  from given show "length (CNAME hdr target # addrs) = 1 + n" by simp
next
  assume none: "(qtype = TypeA \<longrightarrow> index (name4 table) target = []) \<and>
                (qtype = TypeAAAA \<longrightarrow> index (name6 table) target = [])"
  have tgt: "cnameTarget (index (cname table) aliasHost) aliasHost = Inr target"
    using entry by simp
  show "lookupHost table qtype aliasHost = Inr ([], True)"
  proof (cases "qtype = TypeA")
    case True
    with none known tgt show ?thesis by (simp add: lookupHost_def Let_def)
  next
    case notA: False
    show ?thesis
    proof (cases "qtype = TypeAAAA")
      case True
      with none known tgt show ?thesis by (simp add: lookupHost_def Let_def)
    next
      case False
      with notA known tgt show ?thesis by (simp add: lookupHost_def Let_def)
    qed
  qed
qed

theorem lookupHost_cname_chain_witness:
  "''alias.ns.'' \<in> allHosts aliasTable \<and>
   cname aliasTable ''alias.ns.'' = Some (cname_rr ''alias.ns.'' ''target.ns.'' 30) \<and>
   name4 aliasTable ''target.ns.'' =
     Some (a_rr ''target.ns.'' [Some [10, 0, 0, 5], Some [10, 0, 0, 6]] 30) \<and>
   lookupHost aliasTable TypeA ''alias.ns.'' =
     Inr (cname_rr ''alias.ns.'' ''target.ns.'' 30 @
          a_rr ''target.ns.'' [Some [10, 0, 0, 5], Some [10, 0, 0, 6]] 30, True) \<and>
   index (name6 aliasTable) ''target.ns.'' = [] \<and>
   lookupHost aliasTable TypeAAAA ''alias.ns.'' = Inr ([], True)"
  using lookupHost_cname_chain [where table = aliasTable and aliasHost = "''alias.ns.''"
      and hdr = "\<lparr>Name = ''alias.ns.'', Rrtype = TypeCNAME, Class = ClassINET, Ttl = 30,
                  Rdlength = 0\<rparr>"
      and target = "''target.ns.''" and n = 2 and qtype = TypeAAAA
      and addrs = "a_rr ''target.ns.'' [Some [10, 0, 0, 5], Some [10, 0, 0, 6]] 30"]
  by (simp add: aliasTable_def cname_rr_def a_rr_def TypeA_def TypeAAAA_def index_def)

section \<open>A known name without a record of the requested type\<close>

text \<open>
  Claim C4. A host registered by \<open>buildDNSAnswers\<close> with IPv4 addresses only, in a table
  that has no alias and no AAAA record for it, gets the answer \<open>([], True)\<close> to a AAAA
  query: an empty answer with the flag set, not the flag \<open>False\<close>. The same holds for an
  A query on a host registered with IPv6 addresses only, and for a AAAA query on every
  service registered by \<^verbatim>\<open>UpdateLookupTable\<close>.
\<close>

theorem lookupHost_missing_family:
  "(h \<in> set altHosts \<and> index (cname table) (ToLower lowerU h) = [] \<and>
      index (name6 table) (ToLower lowerU h) = [] \<longrightarrow>
      lookupHost (buildDNSAnswers lowerU table altHosts ipsA []) TypeAAAA (ToLower lowerU h) =
        Inr ([], True)) \<and>
   (h \<in> set altHosts \<and> index (cname table) (ToLower lowerU h) = [] \<and>
      index (name4 table) (ToLower lowerU h) = [] \<longrightarrow>
      lookupHost (buildDNSAnswers lowerU table altHosts [] ipsAAAA) TypeA (ToLower lowerU h) =
        Inr ([], True)) \<and>
   (s \<in> set services \<and>
      lookupTable (UpdateLookupTable lowerU parseIP srv services ip) = Some t \<longrightarrow>
      lookupHost t TypeAAAA (serviceKey lowerU s) = Inr ([], True))"
proof (intro conjI impI)
  assume a: "h \<in> set altHosts \<and> index (cname table) (ToLower lowerU h) = [] \<and>
      index (name6 table) (ToLower lowerU h) = []"
  let ?t = "buildDNSAnswers lowerU table altHosts ipsA []"
  have "index (name6 ?t) (ToLower lowerU h) = []"
    using a by (simp add: index_def build_name6)
  with a show "lookupHost ?t TypeAAAA (ToLower lowerU h) = Inr ([], True)"
    by (simp add: lookupHost_def Let_def)
next
  assume a: "h \<in> set altHosts \<and> index (cname table) (ToLower lowerU h) = [] \<and>
      index (name4 table) (ToLower lowerU h) = []"
  let ?t = "buildDNSAnswers lowerU table altHosts [] ipsAAAA"
  have "index (name4 ?t) (ToLower lowerU h) = []"
    using a by (simp add: index_def build_name4)
  with a show "lookupHost ?t TypeA (ToLower lowerU h) = Inr ([], True)"
    by (simp add: lookupHost_def Let_def)
next
  assume a: "s \<in> set services \<and>
      lookupTable (UpdateLookupTable lowerU parseIP srv services ip) = Some t"
  then have t: "t = registerServices lowerU parseIP (emptyTable (serverTtl srv)) services ip"
    by simp
  from a show "lookupHost t TypeAAAA (serviceKey lowerU s) = Inr ([], True)"
    unfolding t by (simp add: lookupHost_def Let_def)
qed

theorem lookupHost_missing_family_witness:
  "lookupHost
     (buildDNSAnswers id (emptyTable 30) [''Web.ns.''] [Some [10, 0, 0, 5]] [])
     TypeAAAA ''web.ns.'' = Inr ([], True) \<and>
   lookupHost
     (buildDNSAnswers id (emptyTable 30) [''Web.ns.'']
        [] [Some [0, 0, 0, 0, 0, 0, 0, 0, 0, 0, 0, 0, 0, 0, 0, 1]])
     TypeA ''web.ns.'' = Inr ([], True) \<and>
   lookupTable sampleServer = Some sampleTable \<and>
   lookupHost sampleTable TypeAAAA ''svc1.ns.svc.cluster.local.'' = Inr ([], True)"
  using lookupHost_missing_family [where h = "''Web.ns.''" and altHosts = "[''Web.ns.'']"
      and table = "emptyTable 30" and lowerU = id and ipsA = "[Some [10, 0, 0, 5]]"
      and ipsAAAA = "[Some [0, 0, 0, 0, 0, 0, 0, 0, 0, 0, 0, 0, 0, 0, 0, 1]]"
      and s = "''svc1.ns.svc.cluster.local''" and services = "[''svc1.ns.svc.cluster.local'']"
      and parseIP = sampleParseIP and srv = "newLocalDNSServer 30" and ip = "''10.0.0.5''"
      and t = sampleTable]
  by (simp add: eval_defs)

lemma ServeDNS_same_lowered:
  assumes "ToLower lowerU (QName q) = ToLower lowerU (QName q')" and "Qtype q = Qtype q'"
  shows "ServeDNS lowerU h (Some q) = ServeDNS lowerU h (Some q')"
  using assms by (cases "lookupTable h") (simp_all add: ServeDNS_def)

section \<open>Under which record type update registers the address\<close>

text \<open>
  Claim C5, as stated, fails: \<^verbatim>\<open>UpdateLookupTable\<close> passes the parsed address as the
  \<open>ipv4\<close> argument of \<open>buildDNSAnswers\<close> and nil as \<open>ipv6\<close>, whatever the address is.
  With the IPv6 loopback address \<^verbatim>\<open>::1\<close> the service has no entry in \<open>name6\<close>; its
  entry in \<open>name4\<close> is an A record that carries the sixteen bytes of the IPv6 address.
\<close>

theorem update_family_counterexample:
  "lookupTable (UpdateLookupTable id sampleParseIP (newLocalDNSServer 30) [''svc1''] ''::1'') =
     Some (registerServices id sampleParseIP (emptyTable 30) [''svc1''] ''::1'') \<and>
   name6 (registerServices id sampleParseIP (emptyTable 30) [''svc1''] ''::1'') ''svc1.'' = None \<and>
   name4 (registerServices id sampleParseIP (emptyTable 30) [''svc1''] ''::1'') ''svc1.'' =
     Some [A \<lparr>Name = ''svc1.'', Rrtype = TypeA, Class = ClassINET, Ttl = 30, Rdlength = 0\<rparr>
             (Some [0, 0, 0, 0, 0, 0, 0, 0, 0, 0, 0, 0, 0, 0, 0, 1])]"
  by (simp add: eval_defs)

text \<open>
  Claim C5, amended. In the table stored by \<^verbatim>\<open>UpdateLookupTable\<close>, every service
  name, with a dot appended and lowercased, is in \<open>allHosts\<close> and has under \<open>name4\<close>
  exactly one A record, whose address is the result of parsing the address string,
  whatever its family; \<open>name6\<close> has no entry at all.
\<close>

theorem update_registers_A_record:
  assumes "lookupTable (UpdateLookupTable lowerU parseIP h services ip) = Some t"
  shows "name6 t = Map.empty \<and>
         (\<forall>s \<in> set services.
            serviceKey lowerU s \<in> allHosts t \<and>
            name4 t (serviceKey lowerU s) =
              Some [A \<lparr>Name = serviceKey lowerU s, Rrtype = TypeA, Class = ClassINET,
                        Ttl = serverTtl h, Rdlength = 0\<rparr> (parseIP ip)])"
proof -
  from assms
  have t: "t = registerServices lowerU parseIP (emptyTable (serverTtl h)) services ip"
    by simp
  have six: "name6 t = Map.empty"
    unfolding t by simp
  have four: "serviceKey lowerU s \<in> allHosts t \<and>
      name4 t (serviceKey lowerU s) =
        Some [A \<lparr>Name = serviceKey lowerU s, Rrtype = TypeA, Class = ClassINET,
                  Ttl = serverTtl h, Rdlength = 0\<rparr> (parseIP ip)]"
    if "s \<in> set services" for s
    unfolding t using that by (simp add: services_name4 a_rr_def)
  from six four show ?thesis by blast
qed

theorem update_registers_A_record_witness:
  "lookupTable sampleServer = Some sampleTable \<and>
   name6 sampleTable = Map.empty \<and>
   ''svc1.ns.svc.cluster.local.'' \<in> allHosts sampleTable \<and>
   name4 sampleTable ''svc1.ns.svc.cluster.local.'' =
     Some [A \<lparr>Name = ''svc1.ns.svc.cluster.local.'', Rrtype = TypeA, Class = ClassINET,
               Ttl = 30, Rdlength = 0\<rparr>
             (Some [0, 0, 0, 0, 0, 0, 0, 0, 0, 0, 255, 255, 10, 0, 0, 5])]"
  using update_registers_A_record [where lowerU = id and parseIP = sampleParseIP
      and h = "newLocalDNSServer 30" and services = "[''svc1.ns.svc.cluster.local'']"
      and ip = "''10.0.0.5''" and t = sampleTable]
  by (simp add: eval_defs)

section \<open>Upper and lower case in the name asked for\<close>

text \<open>
  Claim C6, as stated, fails: \<open>lookupHost\<close> looks its argument up as it is given. In the
  table that update builds for the service \<^verbatim>\<open>foo.example.com\<close>, an A query for
  \<^verbatim>\<open>Foo.Example.com.\<close> finds no host, and the same query for \<^verbatim>\<open>foo.example.com.\<close>
  returns the A record.
\<close>

theorem lookupHost_case_counterexample:
  "lookupHost (registerServices id sampleParseIP (emptyTable 30) [''foo.example.com''] ''10.0.0.5'')
     TypeA ''Foo.Example.com.'' = Inr ([], False) \<and>
   lookupHost (registerServices id sampleParseIP (emptyTable 30) [''foo.example.com''] ''10.0.0.5'')
     TypeA ''foo.example.com.'' =
     Inr ([A \<lparr>Name = ''foo.example.com.'', Rrtype = TypeA, Class = ClassINET, Ttl = 30,
                Rdlength = 0\<rparr>
              (Some [0, 0, 0, 0, 0, 0, 0, 0, 0, 0, 255, 255, 10, 0, 0, 5])], True)"
  by (simp add: eval_defs)

text \<open>
  Claim C6, amended. The lowercasing is done by \<open>ServeDNS\<close> before it calls
  \<open>lookupHost\<close>. For every server state, query type and class, \<open>ServeDNS\<close> gives the
  same result for \<^verbatim>\<open>Foo.Example.com.\<close> and \<^verbatim>\<open>foo.example.com.\<close>; two questions of the
  same type whose names lowercase to the same string get the same result; and a question
  with an ASCII name gets the same result as the question with that name lowercased.
\<close>

theorem ServeDNS_case_insensitive:
  "ServeDNS lowerU h (Some \<lparr>QName = ''Foo.Example.com.'', Qtype = qtype, Qclass = qclass\<rparr>) =
   ServeDNS lowerU h (Some \<lparr>QName = ''foo.example.com.'', Qtype = qtype, Qclass = qclass\<rparr>) \<and>
   (ToLower lowerU (QName q) = ToLower lowerU (QName q') \<and> Qtype q = Qtype q' \<longrightarrow>
      ServeDNS lowerU h (Some q) = ServeDNS lowerU h (Some q')) \<and>
   (isASCII (QName q) \<longrightarrow>
      ServeDNS lowerU h (Some (q\<lparr>QName := ToLower lowerU (QName q)\<rparr>)) =
      ServeDNS lowerU h (Some q))"
proof (intro conjI impI)
  have "ToLower lowerU ''Foo.Example.com.'' = ''foo.example.com.''"
    by (simp add: ToLower_def isASCII_def hasUpper_def isUpper_def lowerByte_def char_of_eq_iff)
  moreover have "ToLower lowerU ''foo.example.com.'' = ''foo.example.com.''"
    by (simp add: ToLower_def isASCII_def hasUpper_def isUpper_def)
  ultimately
  show "ServeDNS lowerU h (Some \<lparr>QName = ''Foo.Example.com.'', Qtype = qtype, Qclass = qclass\<rparr>) =
        ServeDNS lowerU h (Some \<lparr>QName = ''foo.example.com.'', Qtype = qtype, Qclass = qclass\<rparr>)"
    by (intro ServeDNS_same_lowered) simp_all
next
  assume "ToLower lowerU (QName q) = ToLower lowerU (QName q') \<and> Qtype q = Qtype q'"
  then show "ServeDNS lowerU h (Some q) = ServeDNS lowerU h (Some q')"
    by (intro ServeDNS_same_lowered) simp_all
next
  assume "isASCII (QName q)"
  then have "ToLower lowerU (ToLower lowerU (QName q)) = ToLower lowerU (QName q)"
    by (rule ToLower_idem_ASCII)
  then show "ServeDNS lowerU h (Some (q\<lparr>QName := ToLower lowerU (QName q)\<rparr>)) =
             ServeDNS lowerU h (Some q)"
    by (intro ServeDNS_same_lowered) simp_all
qed

theorem ServeDNS_case_insensitive_witness:
  "ToLower id ''SVC1.ns.svc.Cluster.Local.'' = ToLower id ''svc1.NS.svc.cluster.local.'' \<and>
   isASCII ''SVC1.ns.svc.Cluster.Local.'' \<and>
   ServeDNS id sampleServer
     (Some \<lparr>QName = ''SVC1.ns.svc.Cluster.Local.'', Qtype = TypeA, Qclass = ClassINET\<rparr>) =
   ServeDNS id sampleServer
     (Some \<lparr>QName = ''svc1.NS.svc.cluster.local.'', Qtype = TypeA, Qclass = 3\<rparr>) \<and>
   ServeDNS id sampleServer
     (Some \<lparr>QName = ''svc1.ns.svc.cluster.local.'', Qtype = TypeA, Qclass = ClassINET\<rparr>) =
   ServeDNS id sampleServer
     (Some \<lparr>QName = ''SVC1.ns.svc.Cluster.Local.'', Qtype = TypeA, Qclass = ClassINET\<rparr>)"
proof -
  have low: "ToLower id ''SVC1.ns.svc.Cluster.Local.'' = ''svc1.ns.svc.cluster.local.''"
    by (simp add: ToLower_def isASCII_def hasUpper_def isUpper_def lowerByte_def char_of_eq_iff)
  have low': "ToLower id ''svc1.NS.svc.cluster.local.'' = ''svc1.ns.svc.cluster.local.''"
    by (simp add: ToLower_def isASCII_def hasUpper_def isUpper_def lowerByte_def char_of_eq_iff)
  have ascii: "isASCII ''SVC1.ns.svc.Cluster.Local.''"
    by (simp add: isASCII_def)
  from low low' ascii
    ServeDNS_case_insensitive [where lowerU = id and h = sampleServer
      and q = "\<lparr>QName = ''SVC1.ns.svc.Cluster.Local.'', Qtype = TypeA, Qclass = ClassINET\<rparr>"
      and q' = "\<lparr>QName = ''svc1.NS.svc.cluster.local.'', Qtype = TypeA, Qclass = 3\<rparr>"]
  show ?thesis by simp
qed

section \<open>The keys of a table\<close>

text \<open>
  Claim C7, as stated, fails for the builder: \<open>buildDNSAnswers\<close> adds every host to
  \<open>allHosts\<close>, writes \<open>name4\<close> and \<open>name6\<close> only for a non-empty address list, and
  appends no dot. Called on the empty table with the host \<^verbatim>\<open>svc1\<close> and no address,
  it leaves a host in \<open>allHosts\<close> that is a key of none of the three maps and that does
  not end in a dot.
\<close>

theorem builder_keys_counterexample:
  "''svc1'' \<in> allHosts (buildDNSAnswers id (emptyTable 30) [''svc1''] [] []) \<and>
   name4 (buildDNSAnswers id (emptyTable 30) [''svc1''] [] []) ''svc1'' = None \<and>
   name6 (buildDNSAnswers id (emptyTable 30) [''svc1''] [] []) ''svc1'' = None \<and>
   cname (buildDNSAnswers id (emptyTable 30) [''svc1''] [] []) ''svc1'' = None \<and>
   last ''svc1'' \<noteq> CHR ''.''"
  by (simp add: eval_defs)

text \<open>
  Claim C7, amended. In every table stored by \<^verbatim>\<open>UpdateLookupTable\<close> the hosts in
  \<open>allHosts\<close> are exactly the keys of \<open>name4\<close>, and \<open>name6\<close> and \<open>cname\<close> have no key;
  every key is the result of lowercasing a service name with a dot appended, and for a
  service name of ASCII bytes it has no upper-case letter and ends in the dot.
  For \<open>buildDNSAnswers\<close> on its own: it keeps the keys of the three maps within
  \<open>allHosts\<close>; it keeps every host of \<open>allHosts\<close> a key of one of the maps when at least
  one of the two address lists is non-empty; and the hosts it adds are the lowercased
  members of \<^verbatim>\<open>altHosts\<close>.
\<close>

theorem table_key_invariant:
  "(lookupTable (UpdateLookupTable lowerU parseIP h services ip) = Some t \<longrightarrow>
      allHosts t = dom (name4 t) \<and> dom (name6 t) = {} \<and> dom (cname t) = {} \<and>
      allHosts t = serviceKey lowerU ` set services \<and>
      (\<forall>s \<in> set services. isASCII s \<longrightarrow>
         serviceKey lowerU s = map lowerByte s @ ''.'' \<and> \<not> hasUpper (serviceKey lowerU s) \<and>
         last (serviceKey lowerU s) = CHR ''.'')) \<and>
   (dom (name4 table) \<union> dom (name6 table) \<union> dom (cname table) \<subseteq> allHosts table \<longrightarrow>
      dom (name4 (buildDNSAnswers lowerU table altHosts ipsA ipsAAAA)) \<union>
      dom (name6 (buildDNSAnswers lowerU table altHosts ipsA ipsAAAA)) \<union>
      dom (cname (buildDNSAnswers lowerU table altHosts ipsA ipsAAAA))
        \<subseteq> allHosts (buildDNSAnswers lowerU table altHosts ipsA ipsAAAA)) \<and>
   (allHosts table \<subseteq> dom (name4 table) \<union> dom (name6 table) \<union> dom (cname table) \<and>
      (ipsA \<noteq> [] \<or> ipsAAAA \<noteq> []) \<longrightarrow>
      allHosts (buildDNSAnswers lowerU table altHosts ipsA ipsAAAA)
        \<subseteq> dom (name4 (buildDNSAnswers lowerU table altHosts ipsA ipsAAAA)) \<union>
          dom (name6 (buildDNSAnswers lowerU table altHosts ipsA ipsAAAA)) \<union>
          dom (cname (buildDNSAnswers lowerU table altHosts ipsA ipsAAAA))) \<and>
   allHosts (buildDNSAnswers lowerU table altHosts ipsA ipsAAAA) =
     allHosts table \<union> ToLower lowerU ` set altHosts"
proof (intro conjI impI)
  assume "lookupTable (UpdateLookupTable lowerU parseIP h services ip) = Some t"
  then have t: "t = registerServices lowerU parseIP (emptyTable (serverTtl h)) services ip"
    by simp
  show "allHosts t = dom (name4 t)"
    unfolding t by (auto simp: services_name4 dom_def)
  show "dom (name6 t) = {}" "dom (cname t) = {}"
    unfolding t by simp_all
  show "allHosts t = serviceKey lowerU ` set services"
    unfolding t by simp
  show "\<forall>s \<in> set services. isASCII s \<longrightarrow>
         serviceKey lowerU s = map lowerByte s @ ''.'' \<and> \<not> hasUpper (serviceKey lowerU s) \<and>
         last (serviceKey lowerU s) = CHR ''.''"
  proof (intro ballI impI)
    fix s assume "isASCII s"
    then have key: "serviceKey lowerU s = map lowerByte s @ ''.''"
      by (rule ToLower_dot_ASCII)
    have "\<not> hasUpper (map lowerByte (s @ ''.''))"
      by (rule hasUpper_map_lowerByte)
    then have "\<not> hasUpper (map lowerByte s @ ''.'')"
      by simp
    with key show "serviceKey lowerU s = map lowerByte s @ ''.'' \<and>
        \<not> hasUpper (serviceKey lowerU s) \<and> last (serviceKey lowerU s) = CHR ''.''"
      by simp
  qed
next
  let ?t = "buildDNSAnswers lowerU table altHosts ipsA ipsAAAA"
  assume sub: "dom (name4 table) \<union> dom (name6 table) \<union> dom (cname table) \<subseteq> allHosts table"
  show "dom (name4 ?t) \<union> dom (name6 ?t) \<union> dom (cname ?t) \<subseteq> allHosts ?t"
  proof
    fix k assume "k \<in> dom (name4 ?t) \<union> dom (name6 ?t) \<union> dom (cname ?t)"
    then consider "k \<in> ToLower lowerU ` set altHosts"
      | "k \<in> dom (name4 table) \<union> dom (name6 table) \<union> dom (cname table)"
      by (auto simp: dom_def build_name4 build_name6 split: if_splits)
    then show "k \<in> allHosts ?t"
      using sub by cases auto
  qed
next
  let ?t = "buildDNSAnswers lowerU table altHosts ipsA ipsAAAA"
  assume a: "allHosts table \<subseteq> dom (name4 table) \<union> dom (name6 table) \<union> dom (cname table) \<and>
      (ipsA \<noteq> [] \<or> ipsAAAA \<noteq> [])"
  show "allHosts ?t \<subseteq> dom (name4 ?t) \<union> dom (name6 ?t) \<union> dom (cname ?t)"
  proof
    fix k assume "k \<in> allHosts ?t"
    then consider (new) "k \<in> ToLower lowerU ` set altHosts" | (old) "k \<in> allHosts table"
      by auto
    then show "k \<in> dom (name4 ?t) \<union> dom (name6 ?t) \<union> dom (cname ?t)"
    proof cases
      case new
      with a show ?thesis
        by (auto simp: dom_def build_name4 build_name6)
    next
      case old
      with a have "k \<in> dom (name4 table) \<union> dom (name6 table) \<union> dom (cname table)"
        by blast
      then show ?thesis
        by (auto simp: dom_def build_name4 build_name6)
    qed
  qed
next
  show "allHosts (buildDNSAnswers lowerU table altHosts ipsA ipsAAAA) =
     allHosts table \<union> ToLower lowerU ` set altHosts"
    by simp
qed

theorem table_key_invariant_witness:
  "lookupTable sampleServer = Some sampleTable \<and>
   allHosts sampleTable = {''svc1.ns.svc.cluster.local.''} \<and>
   dom (name4 sampleTable) = {''svc1.ns.svc.cluster.local.''} \<and>
   isASCII ''svc1.ns.svc.cluster.local'' \<and>
   \<not> hasUpper ''svc1.ns.svc.cluster.local.'' \<and>
   dom (name4 (emptyTable 30)) \<union> dom (name6 (emptyTable 30)) \<union> dom (cname (emptyTable 30))
     \<subseteq> allHosts (emptyTable 30) \<and>
   dom (name4 (buildDNSAnswers id (emptyTable 30) [''Web.ns.''] [Some [10, 0, 0, 5]] [])) =
     allHosts (buildDNSAnswers id (emptyTable 30) [''Web.ns.''] [Some [10, 0, 0, 5]] []) \<and>
   allHosts (buildDNSAnswers id (emptyTable 30) [''Web.ns.''] [Some [10, 0, 0, 5]] []) =
     {''web.ns.''}"
proof -
  have low: "ToLower id ''svc1.ns.svc.cluster.local.'' = ''svc1.ns.svc.cluster.local.''"
    by (simp add: ToLower_def isASCII_def hasUpper_def isUpper_def)
  have low': "ToLower id ''Web.ns.'' = ''web.ns.''"
    by (simp add: ToLower_def isASCII_def hasUpper_def isUpper_def lowerByte_def char_of_eq_iff)
  have ascii: "isASCII ''svc1.ns.svc.cluster.local''"
    by (simp add: isASCII_def)
  have pub: "lookupTable sampleServer = Some sampleTable"
    by (simp add: sampleServer_def sampleTable_def newLocalDNSServer_def)
  from low low' ascii pub
    table_key_invariant [where lowerU = id and parseIP = sampleParseIP
      and h = "newLocalDNSServer 30" and services = "[''svc1.ns.svc.cluster.local'']"
      and ip = "''10.0.0.5''" and t = sampleTable and table = "emptyTable 30"
      and altHosts = "[''Web.ns.'']" and ipsA = "[Some [10, 0, 0, 5]]" and ipsAAAA = "[]"]
  show ?thesis
    by (auto simp: sampleServer_def [symmetric])
qed

section \<open>Queries against a published table\<close>

text \<open>
  The only \<^verbatim>\<open>Store\<close> is the one in \<^verbatim>\<open>UpdateLookupTable\<close>, so a published table is
  the result of \<open>registerServices\<close> on the empty table. On such a table \<open>lookupHost\<close>
  never panics, and its result has a closed form.
\<close>

lemma lookupHost_published:
  "lookupHost (registerServices lowerU parseIP (emptyTable ttl) services ip) qtype hostname =
     Inr (if hostname \<in> serviceKey lowerU ` set services \<and> qtype = TypeA
          then a_rr hostname [parseIP ip] ttl else [],
          hostname \<in> serviceKey lowerU ` set services)"
proof (cases "hostname \<in> serviceKey lowerU ` set services")
  case False
  then show ?thesis by (simp add: lookupHost_def)
next
  case True
  let ?t = "registerServices lowerU parseIP (emptyTable ttl) services ip"
  have four: "index (name4 ?t) hostname = a_rr hostname [parseIP ip] ttl"
    using True by (simp add: index_def services_name4)
  have len: "length (a_rr hostname [parseIP ip] ttl) = 1"
    by (simp add: a_rr_def)
  from True four len show ?thesis
    by (simp add: lookupHost_def Let_def)
qed

section \<open>An address that does not parse\<close>

text \<open>
  Claim C8. When the address string does not parse, \<^verbatim>\<open>UpdateLookupTable\<close> checks
  nothing: every service is still added to \<open>allHosts\<close>, its entry in \<open>name4\<close> is one A
  record whose address is the nil result of the parse, and an A query on the service, by
  \<open>lookupHost\<close> or by \<open>ServeDNS\<close>, returns that record with the flag \<open>True\<close>.
\<close>

theorem update_unparseable_address:
  assumes nil: "parseIP ip = None"
    and svc: "s \<in> set services"
    and pub: "lookupTable (UpdateLookupTable lowerU parseIP h services ip) = Some t"
  shows "serviceKey lowerU s \<in> allHosts t \<and>
         name4 t (serviceKey lowerU s) =
           Some [A \<lparr>Name = serviceKey lowerU s, Rrtype = TypeA, Class = ClassINET,
                     Ttl = serverTtl h, Rdlength = 0\<rparr> None] \<and>
         lookupHost t TypeA (serviceKey lowerU s) =
           Inr ([A \<lparr>Name = serviceKey lowerU s, Rrtype = TypeA, Class = ClassINET,
                     Ttl = serverTtl h, Rdlength = 0\<rparr> None], True) \<and>
         ServeDNS lowerU (UpdateLookupTable lowerU parseIP h services ip)
             (Some \<lparr>QName = s @ ''.'', Qtype = TypeA, Qclass = qclass\<rparr>) =
           Inr (Some \<lparr>Authoritative = True, Rcode = RcodeSuccess,
                  Answer = [A \<lparr>Name = serviceKey lowerU s, Rrtype = TypeA, Class = ClassINET,
                                Ttl = serverTtl h, Rdlength = 0\<rparr> None]\<rparr>)"
proof -
  let ?rec = "A \<lparr>Name = serviceKey lowerU s, Rrtype = TypeA, Class = ClassINET,
                  Ttl = serverTtl h, Rdlength = 0\<rparr> None"
  from pub have t: "t = registerServices lowerU parseIP (emptyTable (serverTtl h)) services ip"
    by simp
  have rr: "a_rr (serviceKey lowerU s) [parseIP ip] (serverTtl h) = [?rec]"
    using nil by (simp add: a_rr_def)
  have host: "serviceKey lowerU s \<in> allHosts t"
    unfolding t using svc by simp
  have entry: "name4 t (serviceKey lowerU s) = Some [?rec]"
    unfolding t using svc rr by (simp add: services_name4)
  have look: "lookupHost t TypeA (serviceKey lowerU s) = Inr ([?rec], True)"
    unfolding t using svc rr by (simp add: lookupHost_published)
  have serve: "ServeDNS lowerU (UpdateLookupTable lowerU parseIP h services ip)
      (Some \<lparr>QName = s @ ''.'', Qtype = TypeA, Qclass = qclass\<rparr>) =
      Inr (Some \<lparr>Authoritative = True, Rcode = RcodeSuccess, Answer = [?rec]\<rparr>)"
    using pub look by (simp add: ServeDNS_def)
  from host entry look serve show ?thesis by simp
qed

theorem update_unparseable_address_witness:
  "sampleParseIP ''not an address'' = None \<and>
   lookupHost
     (registerServices id sampleParseIP (emptyTable 30) [''Svc1.ns''] ''not an address'')
     TypeA ''svc1.ns.'' =
     Inr ([A \<lparr>Name = ''svc1.ns.'', Rrtype = TypeA, Class = ClassINET, Ttl = 30,
                Rdlength = 0\<rparr> None], True) \<and>
   ServeDNS id
     (UpdateLookupTable id sampleParseIP (newLocalDNSServer 30) [''Svc1.ns''] ''not an address'')
     (Some \<lparr>QName = ''Svc1.ns.'', Qtype = TypeA, Qclass = ClassINET\<rparr>) =
     Inr (Some \<lparr>Authoritative = True, Rcode = RcodeSuccess,
            Answer = [A \<lparr>Name = ''svc1.ns.'', Rrtype = TypeA, Class = ClassINET, Ttl = 30,
                          Rdlength = 0\<rparr> None]\<rparr>)"
proof -
  have nil: "sampleParseIP ''not an address'' = None"
    by (simp add: sampleParseIP_def)
  have low: "ToLower id ''Svc1.ns.'' = ''svc1.ns.''"
    by (simp add: ToLower_def isASCII_def hasUpper_def isUpper_def lowerByte_def char_of_eq_iff)
  have ttl: "serverTtl (newLocalDNSServer 30) = 30"
    by (simp add: newLocalDNSServer_def)
  have svc: "''Svc1.ns'' \<in> set [''Svc1.ns'']"
    by simp
  have pub: "lookupTable
      (UpdateLookupTable id sampleParseIP (newLocalDNSServer 30) [''Svc1.ns''] ''not an address'') =
      Some (registerServices id sampleParseIP (emptyTable 30) [''Svc1.ns''] ''not an address'')"
    by (simp add: ttl)
  from update_unparseable_address [OF nil svc pub, where qclass = ClassINET] nil low ttl
  show ?thesis by simp
qed

section \<open>No alias is ever written\<close>

text \<open>
  Claim C9. \<^verbatim>\<open>UpdateLookupTable\<close> and \<open>buildDNSAnswers\<close> write \<open>allHosts\<close>, \<open>name4\<close>
  and \<open>name6\<close> only, and nothing calls the CNAME builder: the \<open>cname\<close> map of a published
  table is empty. So for every query type and host name \<open>lookupHost\<close> returns, and every
  record of its answer is an A or AAAA record and none is a CNAME record; the same holds
  for the answer section of every message that \<open>ServeDNS\<close> returns.
\<close>

theorem update_never_cname:
  assumes pub: "lookupTable (UpdateLookupTable lowerU parseIP h services ip) = Some t"
  shows "cname t = Map.empty \<and>
         (\<exists>answers known. lookupHost t qtype hostname = Inr (answers, known) \<and>
            (\<forall>r \<in> set answers. (is_A r \<or> is_AAAA r) \<and> \<not> is_CNAME r)) \<and>
         (\<exists>reply. ServeDNS lowerU (UpdateLookupTable lowerU parseIP h services ip) (Some q) =
              Inr reply \<and>
            (\<forall>m. reply = Some m \<longrightarrow>
               (\<forall>r \<in> set (Answer m). (is_A r \<or> is_AAAA r) \<and> \<not> is_CNAME r)))"
proof -
  from pub have t: "t = registerServices lowerU parseIP (emptyTable (serverTtl h)) services ip"
    by simp
  have addr: "(is_A r \<or> is_AAAA r) \<and> \<not> is_CNAME r"
    if "r \<in> set (a_rr k [parseIP ip] (serverTtl h))" for r k
    using that by (auto simp: a_rr_def)
  have none: "cname t = Map.empty"
    unfolding t by simp
  have look: "\<exists>answers known. lookupHost t qt k = Inr (answers, known) \<and>
      (\<forall>r \<in> set answers. (is_A r \<or> is_AAAA r) \<and> \<not> is_CNAME r)" for qt k
    unfolding t lookupHost_published using addr by auto
  obtain answers known where
    res: "lookupHost t (Qtype q) (ToLower lowerU (QName q)) = Inr (answers, known)" and
    recs: "\<forall>r \<in> set answers. (is_A r \<or> is_AAAA r) \<and> \<not> is_CNAME r"
    using look by blast
  have serve: "\<exists>reply. ServeDNS lowerU (UpdateLookupTable lowerU parseIP h services ip) (Some q) =
        Inr reply \<and>
      (\<forall>m. reply = Some m \<longrightarrow> (\<forall>r \<in> set (Answer m). (is_A r \<or> is_AAAA r) \<and> \<not> is_CNAME r))"
    using pub res recs by (cases known) (auto simp: ServeDNS_def)
  from none look serve show ?thesis by blast
qed

theorem update_never_cname_witness:
  "lookupTable sampleServer = Some sampleTable \<and>
   cname sampleTable = Map.empty \<and>
   (\<exists>answers known.
      lookupHost sampleTable TypeA ''svc1.ns.svc.cluster.local.'' = Inr (answers, known) \<and>
      (\<forall>r \<in> set answers. (is_A r \<or> is_AAAA r) \<and> \<not> is_CNAME r))"
proof -
  have pub: "lookupTable
      (UpdateLookupTable id sampleParseIP (newLocalDNSServer 30)
         [''svc1.ns.svc.cluster.local''] ''10.0.0.5'') = Some sampleTable"
    by (simp add: sampleTable_def newLocalDNSServer_def)
  from update_never_cname [OF pub, where qtype = TypeA
      and hostname = "''svc1.ns.svc.cluster.local.''"] pub
  show ?thesis by (simp add: sampleServer_def)
qed

section \<open>Query types other than A and AAAA\<close>

text \<open>
  Claim C10. For a published table and a question whose type is neither A nor AAAA and
  whose lowercased name is in \<open>allHosts\<close>, \<open>ServeDNS\<close> returns a message with
  \<open>Authoritative\<close> set, \<open>Rcode\<close> success and an empty answer section, not the nil
  message. The same holds for any stored table in which the alias entry of the name, if
  there is one, starts with a CNAME record.
\<close>

theorem ServeDNS_other_type:
  "(lookupTable (UpdateLookupTable lowerU parseIP h services ip) = Some t \<and>
      Qtype q \<noteq> TypeA \<and> Qtype q \<noteq> TypeAAAA \<and> ToLower lowerU (QName q) \<in> allHosts t \<longrightarrow>
      ServeDNS lowerU (UpdateLookupTable lowerU parseIP h services ip) (Some q) =
        Inr (Some \<lparr>Authoritative = True, Rcode = RcodeSuccess, Answer = []\<rparr>)) \<and>
   (lookupTable srv = Some table \<and>
      Qtype q \<noteq> TypeA \<and> Qtype q \<noteq> TypeAAAA \<and> ToLower lowerU (QName q) \<in> allHosts table \<and>
      cnameTarget (index (cname table) (ToLower lowerU (QName q))) (ToLower lowerU (QName q)) =
        Inr target \<longrightarrow>
      ServeDNS lowerU srv (Some q) =
        Inr (Some \<lparr>Authoritative = True, Rcode = RcodeSuccess, Answer = []\<rparr>))"
proof (intro conjI impI)
  assume a: "lookupTable (UpdateLookupTable lowerU parseIP h services ip) = Some t \<and>
      Qtype q \<noteq> TypeA \<and> Qtype q \<noteq> TypeAAAA \<and> ToLower lowerU (QName q) \<in> allHosts t"
  then have t: "t = registerServices lowerU parseIP (emptyTable (serverTtl h)) services ip"
    by simp
  from a have "ToLower lowerU (QName q) \<in> serviceKey lowerU ` set services"
    unfolding t by simp
  with a have "lookupHost t (Qtype q) (ToLower lowerU (QName q)) = Inr ([], True)"
    unfolding t by (simp add: lookupHost_published)
  with a show "ServeDNS lowerU (UpdateLookupTable lowerU parseIP h services ip) (Some q) =
      Inr (Some \<lparr>Authoritative = True, Rcode = RcodeSuccess, Answer = []\<rparr>)"
    by (simp add: ServeDNS_def)
next
  assume a: "lookupTable srv = Some table \<and>
      Qtype q \<noteq> TypeA \<and> Qtype q \<noteq> TypeAAAA \<and> ToLower lowerU (QName q) \<in> allHosts table \<and>
      cnameTarget (index (cname table) (ToLower lowerU (QName q))) (ToLower lowerU (QName q)) =
        Inr target"
  then have "lookupHost table (Qtype q) (ToLower lowerU (QName q)) = Inr ([], True)"
    by (simp add: lookupHost_def Let_def)
  with a show "ServeDNS lowerU srv (Some q) =
      Inr (Some \<lparr>Authoritative = True, Rcode = RcodeSuccess, Answer = []\<rparr>)"
    by (simp add: ServeDNS_def)
qed

theorem ServeDNS_other_type_witness:
  "lookupTable sampleServer = Some sampleTable \<and>
   TypeCNAME \<noteq> TypeA \<and> TypeCNAME \<noteq> TypeAAAA \<and>
   ''svc1.ns.svc.cluster.local.'' \<in> allHosts sampleTable \<and>
   ServeDNS id sampleServer
     (Some \<lparr>QName = ''SVC1.ns.svc.cluster.local.'', Qtype = TypeCNAME, Qclass = ClassINET\<rparr>) =
     Inr (Some \<lparr>Authoritative = True, Rcode = RcodeSuccess, Answer = []\<rparr>) \<and>
   ''alias.ns.'' \<in> allHosts aliasTable \<and>
   cnameTarget (index (cname aliasTable) ''alias.ns.'') ''alias.ns.'' = Inr ''target.ns.'' \<and>
   ServeDNS id \<lparr>lookupTable = Some aliasTable, serverTtl = 30\<rparr>
     (Some \<lparr>QName = ''Alias.NS.'', Qtype = 16, Qclass = ClassINET\<rparr>) =
     Inr (Some \<lparr>Authoritative = True, Rcode = RcodeSuccess, Answer = []\<rparr>)"
proof -
  have low: "ToLower id ''SVC1.ns.svc.cluster.local.'' = ''svc1.ns.svc.cluster.local.''"
    by (simp add: ToLower_def isASCII_def hasUpper_def isUpper_def lowerByte_def char_of_eq_iff)
  have low': "ToLower id ''Alias.NS.'' = ''alias.ns.''"
    by (simp add: ToLower_def isASCII_def hasUpper_def isUpper_def lowerByte_def char_of_eq_iff)
  have pub: "lookupTable
      (UpdateLookupTable id sampleParseIP (newLocalDNSServer 30)
         [''svc1.ns.svc.cluster.local''] ''10.0.0.5'') = Some sampleTable"
    by (simp add: sampleTable_def newLocalDNSServer_def)
  have types: "TypeCNAME \<noteq> TypeA" "TypeCNAME \<noteq> TypeAAAA" "(16 :: 16 word) \<noteq> TypeA"
    "(16 :: 16 word) \<noteq> TypeAAAA"
    by (simp_all add: TypeA_def TypeAAAA_def TypeCNAME_def)
  have key: "ToLower id ''svc1.ns.svc.cluster.local.'' = ''svc1.ns.svc.cluster.local.''"
    by (simp add: ToLower_def isASCII_def hasUpper_def isUpper_def)
  have host: "''svc1.ns.svc.cluster.local.'' \<in> allHosts sampleTable"
    by (simp add: sampleTable_def key)
  have host': "''alias.ns.'' \<in> allHosts aliasTable"
    by (simp add: aliasTable_def)
  have tgt: "cnameTarget (index (cname aliasTable) ''alias.ns.'') ''alias.ns.'' = Inr ''target.ns.''"
    by (simp add: aliasTable_def cname_rr_def)
  from
    ServeDNS_other_type [where lowerU = id and parseIP = sampleParseIP
      and h = "newLocalDNSServer 30" and services = "[''svc1.ns.svc.cluster.local'']"
      and ip = "''10.0.0.5''" and t = sampleTable
      and q = "\<lparr>QName = ''SVC1.ns.svc.cluster.local.'', Qtype = TypeCNAME, Qclass = ClassINET\<rparr>"]
    ServeDNS_other_type [where lowerU = id
      and srv = "\<lparr>lookupTable = Some aliasTable, serverTtl = 30\<rparr>" and table = aliasTable
      and q = "\<lparr>QName = ''Alias.NS.'', Qtype = 16, Qclass = ClassINET\<rparr>"
      and target = "''target.ns.''"]
    low low' pub types host host' tgt
  show ?thesis by (simp add: sampleServer_def)
qed

end
